theory Spec2Isabelle
  imports Main "HOL-Library.Word"
begin

unbundle bit_operations_syntax

section \<open>The state the semaphore routines run in\<close>

text \<open>
  The routines of \<^verbatim>\<open>sem.c\<close> are thin translations of the POSIX semaphore calls onto
  the handle-based calls of the host (\<^verbatim>\<open>CreateSemaphore\<close>, \<^verbatim>\<open>WaitForSingleObject\<close>,
  \<^verbatim>\<open>ReleaseSemaphore\<close>, \<^verbatim>\<open>CloseHandle\<close>, \<^verbatim>\<open>GetLastError\<close>) and of the C library
  (\<^verbatim>\<open>calloc\<close>, \<^verbatim>\<open>free\<close>). They are embedded as functions on an explicit state, the
  \<open>world\<close>: the memory of the process, the handle table, the kernel's semaphore objects
  and their names, the last-error slot of the host and \<^verbatim>\<open>errno\<close>.

  Pointers and handles are machine words, modelled as natural numbers; \<open>NULL\<close> is 0.
  A cell of memory holds one pointer-sized word: a \<^verbatim>\<open>sem_t\<close> (a pointer) or an
  \<^verbatim>\<open>arch_sem_t\<close> (a structure whose only member is \<^verbatim>\<open>handle\<close>).
  The model is sequential: one thread runs, and nothing else changes the world
  during a call.
\<close>

datatype errno_code =
  ENONE | EINVAL | ENOMEM | ENOSPC | EAGAIN | ETIMEDOUT | EOVERFLOW | EACCES | ENOENT | EEXIST

text \<open>A kernel semaphore object: its counter, its maximum count, the number of open
  references to it and its name (empty for an anonymous object).\<close>

record ksem =
  kcount :: nat
  kmax :: nat
  krefs :: nat
  kname :: string

text \<open>\<^verbatim>\<open>struct timespec\<close>: seconds and nanoseconds since the Epoch.\<close>

record timespec =
  tv_sec :: int
  tv_nsec :: int

record world =
  memory :: "nat \<rightharpoonup> nat"
  blocks :: "nat set"
  heap_top :: nat
  heap_avail :: nat
  handles :: "nat \<rightharpoonup> nat"
  objects :: "nat \<rightharpoonup> ksem"
  namespace :: "string \<rightharpoonup> nat"
  last_handle :: nat
  last_object :: nat
  create_fault :: nat
  last_error :: nat
  errno :: errno_code
  clock :: int

text \<open>
  \<^item> \<open>memory\<close>: the readable and writable cells (heap blocks and the caller's variables);
  \<^item> \<open>blocks\<close>: the addresses \<^verbatim>\<open>calloc\<close> returned that were not freed since;
  \<^item> \<open>heap_top\<close>, \<open>heap_avail\<close>: the last address handed out and the number of blocks
    the allocator can still hand out (\<^verbatim>\<open>calloc\<close> returns \<open>NULL\<close> at 0);
  \<^item> \<open>handles\<close>: the open handles of the process, each bound to a kernel object;
  \<^item> \<open>objects\<close>, \<open>namespace\<close>: the live kernel semaphores and the names bound to them;
  \<^item> \<open>create_fault\<close>: the error the kernel fails the next creation with
    (\<open>ERROR_SUCCESS\<close>: it does not fail), standing for access rights, name clashes with
    objects of another kind and exhausted resources;
  \<^item> \<open>last_error\<close>: what \<^verbatim>\<open>GetLastError\<close> returns; \<open>errno\<close>: the POSIX error slot;
  \<^item> \<open>clock\<close>: the current time, in nanoseconds since the Epoch.
\<close>

text \<open>What a call does: it returns a value in a new world, it never returns (an infinite
  wait nobody ends), or it reads or writes memory that is not there (a null or dangling
  pointer: undefined behaviour in C).\<close>

datatype 'a outcome = Done 'a world | Blocked | Fault

abbreviation NULL :: nat where "NULL \<equiv> 0"

subsection \<open>Constants of the host\<close>

abbreviation ERROR_SUCCESS :: nat where "ERROR_SUCCESS \<equiv> 0"
abbreviation ERROR_ACCESS_DENIED :: nat where "ERROR_ACCESS_DENIED \<equiv> 5"
abbreviation ERROR_INVALID_HANDLE :: nat where "ERROR_INVALID_HANDLE \<equiv> 6"
abbreviation ERROR_INVALID_PARAMETER :: nat where "ERROR_INVALID_PARAMETER \<equiv> 87"
abbreviation ERROR_ALREADY_EXISTS :: nat where "ERROR_ALREADY_EXISTS \<equiv> 183"
abbreviation ERROR_TOO_MANY_POSTS :: nat where "ERROR_TOO_MANY_POSTS \<equiv> 298"

abbreviation WAIT_OBJECT_0 :: nat where "WAIT_OBJECT_0 \<equiv> 0"
abbreviation WAIT_TIMEOUT :: nat where "WAIT_TIMEOUT \<equiv> 258"
abbreviation WAIT_FAILED :: nat where "WAIT_FAILED \<equiv> 4294967295"
abbreviation INFINITE :: nat where "INFINITE \<equiv> 4294967295"

abbreviation LONG_MAX :: nat where "LONG_MAX \<equiv> 2147483647"

text \<open>The open flags, with the values the C library of the host gives them in
  \<^verbatim>\<open>fcntl.h\<close>; \<^verbatim>\<open>sem_open\<close> only tests whether each bit is set.\<close>

abbreviation O_CREAT :: "32 word" where "O_CREAT \<equiv> 0x100"
abbreviation O_EXCL :: "32 word" where "O_EXCL \<equiv> 0x400"

text \<open>The documentation of \<^verbatim>\<open>sem_init\<close> in \<^verbatim>\<open>sem.c\<close> gives the value:
  ``(0 or PTHREAD\_PROCESS\_PRIVATE)''.\<close>

abbreviation PTHREAD_PROCESS_PRIVATE :: int where "PTHREAD_PROCESS_PRIVATE \<equiv> 0"

subsection \<open>Memory\<close>

text \<open>Reading and writing through a pointer; \<open>None\<close> when the pointer is null or
  points at no cell.\<close>

definition load :: "nat \<Rightarrow> world \<Rightarrow> nat option" where
  "load p w = (if p = NULL then None else memory w p)"

definition store :: "nat \<Rightarrow> nat \<Rightarrow> world \<Rightarrow> world option" where
  "store p v w =
     (if p = NULL \<or> memory w p = None then None
      else Some (w\<lparr>memory := (memory w)(p \<mapsto> v)\<rparr>))"

text \<open>\<^verbatim>\<open>calloc(1, sizeof(arch_sem_t))\<close>: a fresh zeroed block of one cell, or \<open>NULL\<close>.\<close>

definition calloc :: "world \<Rightarrow> nat \<times> world" where
  "calloc w =
     (if heap_avail w = 0 then (NULL, w)
      else (Suc (heap_top w),
            w\<lparr>memory := (memory w)(Suc (heap_top w) \<mapsto> 0),
              blocks := insert (Suc (heap_top w)) (blocks w),
              heap_top := Suc (heap_top w),
              heap_avail := heap_avail w - 1\<rparr>))"

text \<open>\<^verbatim>\<open>free(p)\<close>: nothing for \<open>NULL\<close>; the block is gone afterwards; \<open>None\<close> when \<open>p\<close>
  is not a block of the heap.\<close>

definition free :: "nat \<Rightarrow> world \<Rightarrow> world option" where
  "free p w =
     (if p = NULL then Some w
      else if p \<in> blocks w
      then Some (w\<lparr>memory := (memory w)(p := None), blocks := blocks w - {p}\<rparr>)
      else None)"

subsection \<open>The host's semaphore calls\<close>

definition GetLastError :: "world \<Rightarrow> nat" where
  "GetLastError w = last_error w"

definition SetLastError :: "nat \<Rightarrow> world \<Rightarrow> world" where
  "SetLastError e w = w\<lparr>last_error := e\<rparr>"

text \<open>
  \<^verbatim>\<open>CreateSemaphore(NULL, lInitialCount, lMaximumCount, lpName)\<close>. An empty name makes
  an anonymous object. A name that is bound opens a further reference to that object,
  whose counter stays as it is, and leaves \<open>ERROR_ALREADY_EXISTS\<close> as the last error;
  otherwise a new object is made and the last error is \<open>ERROR_SUCCESS\<close>. The result is
  the new handle, or \<open>NULL\<close> with the last error saying why.
\<close>

definition CreateSemaphore :: "int \<Rightarrow> int \<Rightarrow> string \<Rightarrow> world \<Rightarrow> nat \<times> world" where
  "CreateSemaphore lInitialCount lMaximumCount lpName w =
     (if create_fault w \<noteq> ERROR_SUCCESS then (NULL, SetLastError (create_fault w) w)
      else if lMaximumCount \<le> 0 \<or> lInitialCount < 0 \<or> lMaximumCount < lInitialCount
      then (NULL, SetLastError ERROR_INVALID_PARAMETER w)
      else
        (case (if lpName = [] then None
               else (case namespace w lpName of None \<Rightarrow> None
                     | Some obj \<Rightarrow> map_option (Pair obj) (objects w obj))) of
           Some (obj, ks) \<Rightarrow>
             (Suc (last_handle w),
              w\<lparr>handles := (handles w)(Suc (last_handle w) \<mapsto> obj),
                objects := (objects w)(obj \<mapsto> ks\<lparr>krefs := Suc (krefs ks)\<rparr>),
                last_handle := Suc (last_handle w),
                last_error := ERROR_ALREADY_EXISTS\<rparr>)
         | None \<Rightarrow>
             (Suc (last_handle w),
              w\<lparr>handles := (handles w)(Suc (last_handle w) \<mapsto> Suc (last_object w)),
                objects := (objects w)(Suc (last_object w) \<mapsto>
                   \<lparr>kcount = nat lInitialCount, kmax = nat lMaximumCount,
                    krefs = 1, kname = lpName\<rparr>),
                namespace := (if lpName = [] then namespace w
                              else (namespace w)(lpName \<mapsto> Suc (last_object w))),
                last_handle := Suc (last_handle w),
                last_object := Suc (last_object w),
                last_error := ERROR_SUCCESS\<rparr>)))"

text \<open>The semaphore object behind a handle, if the handle is open.\<close>

definition object_of :: "nat \<Rightarrow> world \<Rightarrow> (nat \<times> ksem) option" where
  "object_of h w =
     (case handles w h of None \<Rightarrow> None
      | Some obj \<Rightarrow> map_option (Pair obj) (objects w obj))"

text \<open>
  \<^verbatim>\<open>WaitForSingleObject(hHandle, dwMilliseconds)\<close>. A positive counter is decremented
  at once (\<open>WAIT_OBJECT_0\<close>). At counter 0, with no other thread to release the
  semaphore, a bounded wait lasts its whole time and ends with \<open>WAIT_TIMEOUT\<close>, and an
  \<open>INFINITE\<close> wait never returns (\<open>None\<close>). A handle that is not open gives
  \<open>WAIT_FAILED\<close>.
\<close>

definition WaitForSingleObject :: "nat \<Rightarrow> nat \<Rightarrow> world \<Rightarrow> (nat \<times> world) option" where
  "WaitForSingleObject hHandle dwMilliseconds w =
     (case object_of hHandle w of
        None \<Rightarrow> Some (WAIT_FAILED, SetLastError ERROR_INVALID_HANDLE w)
      | Some (obj, ks) \<Rightarrow>
          if 0 < kcount ks
          then Some (WAIT_OBJECT_0, w\<lparr>objects := (objects w)(obj \<mapsto> ks\<lparr>kcount := kcount ks - 1\<rparr>)\<rparr>)
          else if dwMilliseconds = INFINITE then None
          else Some (WAIT_TIMEOUT, w\<lparr>clock := clock w + int dwMilliseconds * 1000000\<rparr>))"

text \<open>
  \<^verbatim>\<open>ReleaseSemaphore(hSemaphore, lReleaseCount, lpPreviousCount)\<close>: \<open>Some\<close> of the
  previous count when the call succeeds (a nonzero \<^verbatim>\<open>BOOL\<close>), \<open>None\<close> when it fails
  (zero). The counter never passes the maximum of the object: such a release fails with
  \<open>ERROR_TOO_MANY_POSTS\<close> and changes nothing.
\<close>

definition ReleaseSemaphore :: "nat \<Rightarrow> int \<Rightarrow> world \<Rightarrow> int option \<times> world" where
  "ReleaseSemaphore hSemaphore lReleaseCount w =
     (case object_of hSemaphore w of
        None \<Rightarrow> (None, SetLastError ERROR_INVALID_HANDLE w)
      | Some (obj, ks) \<Rightarrow>
          if lReleaseCount \<le> 0 \<or> int (kmax ks) < int (kcount ks) + lReleaseCount
          then (None, SetLastError ERROR_TOO_MANY_POSTS w)
          else (Some (int (kcount ks)),
                w\<lparr>objects := (objects w)(obj \<mapsto> ks\<lparr>kcount := kcount ks + nat lReleaseCount\<rparr>)\<rparr>))"

text \<open>
  \<^verbatim>\<open>CloseHandle(hObject)\<close>: \<open>True\<close> when the handle was open; it is closed, and the
  object goes with its last reference, together with its name.
\<close>

definition CloseHandle :: "nat \<Rightarrow> world \<Rightarrow> bool \<times> world" where
  "CloseHandle hObject w =
     (case object_of hObject w of
        None \<Rightarrow> (False, SetLastError ERROR_INVALID_HANDLE w)
      | Some (obj, ks) \<Rightarrow>
          (True,
           if krefs ks \<le> 1
           then w\<lparr>handles := (handles w)(hObject := None),
                  objects := (objects w)(obj := None),
                  namespace := (if kname ks = [] then namespace w
                                else (namespace w)(kname ks := None))\<rparr>
           else w\<lparr>handles := (handles w)(hObject := None),
                  objects := (objects w)(obj \<mapsto> ks\<lparr>krefs := krefs ks - 1\<rparr>)\<rparr>))"

section \<open>Helpers of the library and of C\<close>

text \<open>
  Modelled from the spec: \<^verbatim>\<open>set_errno\<close> is declared in \<^verbatim>\<open>misc.h\<close>, which is not among
  the sources. Every failure is reported as a failure indicator plus a classification in
  the process-wide error slot; the comments of \<^verbatim>\<open>sem.c\<close> give the indicator: ``the
  return value is -1, with errno set to indicate the error''.
\<close>

definition set_errno :: "errno_code \<Rightarrow> world \<Rightarrow> int \<times> world" where
  "set_errno e w = (- 1, w\<lparr>errno := e\<rparr>)"

text \<open>\<^verbatim>\<open>return f(...)\<close> for a call that gives a value and a world.\<close>

definition ret :: "'a \<times> world \<Rightarrow> 'a outcome" where
  "ret rw = Done (fst rw) (snd rw)"

definition timespec_ns :: "timespec \<Rightarrow> int" where
  "timespec_ns t = tv_sec t * 1000000000 + tv_nsec t"

text \<open>
  Modelled from the spec: \<^verbatim>\<open>arch_rel_time_in_ms\<close> is declared in \<^verbatim>\<open>misc.h\<close> and not
  among the sources. It turns the absolute deadline into the relative duration of the
  native wait: deadline minus current time, floored at zero, in milliseconds.
\<close>

definition arch_rel_time_in_ms :: "timespec \<Rightarrow> world \<Rightarrow> nat" where
  "arch_rel_time_in_ms abs_timeout w =
     nat (max 0 (timespec_ns abs_timeout - clock w) div 1000000)"

text \<open>A value converted to \<^verbatim>\<open>int\<close> or \<^verbatim>\<open>long\<close>, both of 32 bits on the host: the
  low 32 bits, read as two's complement.\<close>

definition int32 :: "int \<Rightarrow> int" where
  "int32 x = sint (word_of_int x :: 32 word)"

text \<open>\<^verbatim>\<open>strlen\<close>: the number of characters before the first NUL. A C string is given
  as the list of its characters; the terminating NUL is implicit.\<close>

definition strlen :: "string \<Rightarrow> nat" where
  "strlen s = length (takeWhile (\<lambda>c. c \<noteq> CHR 0x00) s)"

text \<open>\<^verbatim>\<open>"%p"\<close>: the pointer in 16 hexadecimal digits.\<close>

fun hex_digits :: "nat \<Rightarrow> nat \<Rightarrow> string" where
  "hex_digits 0 n = []"
| "hex_digits (Suc k) n = hex_digits k (n div 16) @ [''0123456789ABCDEF'' ! (n mod 16)]"

definition fmt_ptr :: "nat \<Rightarrow> string" where
  "fmt_ptr p = hex_digits 16 p"

text \<open>The prefix \<^verbatim>\<open>"Global\\"\<close> of the shared namespace (7 characters).\<close>

definition global_prefix :: string where
  "global_prefix = ''Global'' @ [CHR 0x5C]"

section \<open>The semaphore routines\<close>

text \<open>
  \<^verbatim>\<open>SEM_VALUE_MAX\<close> is defined in \<^verbatim>\<open>semaphore.h\<close>, which is not among the sources:
  it is the parameter \<open>vmax\<close> of the two routines that use it. A pointer \<^verbatim>\<open>sem_t *\<close>
  is the address it holds. The \<^verbatim>\<open>int *value\<close> of \<^verbatim>\<open>sem_getvalue\<close> is returned
  beside the result: \<open>Some v\<close> when \<open>v\<close> was written to it, \<open>None\<close> when nothing was.
\<close>

definition sem_init :: "nat \<Rightarrow> nat \<Rightarrow> int \<Rightarrow> 32 word \<Rightarrow> world \<Rightarrow> int outcome" where
  "sem_init vmax sem pshared val w =
     (if sem = NULL \<or> val > word_of_nat vmax then ret (set_errno EINVAL w)
      else
        (case calloc w of (pv, w1) \<Rightarrow>
           if pv = NULL then ret (set_errno ENOMEM w1)
           else
             (let buf = (if pshared \<noteq> PTHREAD_PROCESS_PRIVATE
                         then global_prefix @ fmt_ptr pv else [])
              in case CreateSemaphore (sint val) (int32 (int vmax)) buf w1 of (h, w2) \<Rightarrow>
                   (case store pv h w2 of None \<Rightarrow> Fault
                    | Some w3 \<Rightarrow>
                        if h = NULL
                        then (case free pv w3 of None \<Rightarrow> Fault
                              | Some w4 \<Rightarrow> ret (set_errno ENOSPC w4))
                        else (case store sem pv w3 of None \<Rightarrow> Fault
                              | Some w4 \<Rightarrow> Done 0 w4)))))"

definition sem_wait :: "nat \<Rightarrow> world \<Rightarrow> int outcome" where
  "sem_wait sem w =
     (let pv = sem in
      if sem = NULL \<or> pv = NULL then ret (set_errno EINVAL w)
      else
        (case load pv w of None \<Rightarrow> Fault
         | Some h \<Rightarrow>
             (case WaitForSingleObject h INFINITE w of None \<Rightarrow> Blocked
              | Some (rc, w1) \<Rightarrow>
                  if rc \<noteq> WAIT_OBJECT_0 then ret (set_errno EINVAL w1)
                  else Done 0 w1)))"

definition sem_trywait :: "nat \<Rightarrow> world \<Rightarrow> int outcome" where
  "sem_trywait sem w =
     (let pv = sem in
      if sem = NULL \<or> pv = NULL then ret (set_errno EINVAL w)
      else
        (case load pv w of None \<Rightarrow> Fault
         | Some h \<Rightarrow>
             (case WaitForSingleObject h 0 w of None \<Rightarrow> Blocked
              | Some (rc, w1) \<Rightarrow>
                  if rc = WAIT_OBJECT_0 then Done 0 w1
                  else if rc = WAIT_TIMEOUT then ret (set_errno EAGAIN w1)
                  else ret (set_errno EINVAL w1))))"

definition sem_timedwait :: "nat \<Rightarrow> timespec \<Rightarrow> world \<Rightarrow> int outcome" where
  "sem_timedwait sem abs_timeout w =
     (let pv = sem in
      if sem = NULL \<or> pv = NULL then ret (set_errno EINVAL w)
      else
        (case load pv w of None \<Rightarrow> Fault
         | Some h \<Rightarrow>
             (case WaitForSingleObject h (arch_rel_time_in_ms abs_timeout w) w of
                None \<Rightarrow> Blocked
              | Some (rc, w1) \<Rightarrow>
                  if rc = WAIT_OBJECT_0 then Done 0 w1
                  else if rc = WAIT_TIMEOUT then ret (set_errno ETIMEDOUT w1)
                  else ret (set_errno EINVAL w1))))"

definition sem_post :: "nat \<Rightarrow> world \<Rightarrow> int outcome" where
  "sem_post sem w =
     (let pv = sem in
      if sem = NULL \<or> pv = NULL then ret (set_errno EINVAL w)
      else
        (case load pv w of None \<Rightarrow> Fault
         | Some h \<Rightarrow>
             (case ReleaseSemaphore h 1 w of
                (None, w1) \<Rightarrow>
                  if ERROR_TOO_MANY_POSTS = GetLastError w1 then ret (set_errno EOVERFLOW w1)
                  else ret (set_errno EINVAL w1)
              | (Some previous, w1) \<Rightarrow> Done 0 w1)))"

definition sem_getvalue :: "nat \<Rightarrow> world \<Rightarrow> (int \<times> int option) outcome" where
  "sem_getvalue sem w =
     (let pv = sem in
      case load pv w of None \<Rightarrow> Fault
      | Some h \<Rightarrow>
          (case WaitForSingleObject h 0 w of None \<Rightarrow> Blocked
           | Some (rc, w1) \<Rightarrow>
               if rc = WAIT_OBJECT_0 then
                 (case ReleaseSemaphore h 1 w1 of
                    (None, w2) \<Rightarrow> Done (fst (set_errno EINVAL w2), None) (snd (set_errno EINVAL w2))
                  | (Some previous, w2) \<Rightarrow> Done (0, Some (int32 (previous + 1))) w2)
               else if rc = WAIT_TIMEOUT then Done (0, Some 0) w1
               else Done (fst (set_errno EINVAL w1), None) (snd (set_errno EINVAL w1))))"

definition sem_destroy :: "nat \<Rightarrow> world \<Rightarrow> int outcome" where
  "sem_destroy sem w =
     (let pv = sem in
      if pv = NULL then ret (set_errno EINVAL w)
      else
        (case load pv w of None \<Rightarrow> Fault
         | Some h \<Rightarrow>
             (case CloseHandle h w of (ok, w1) \<Rightarrow>
                if \<not> ok then ret (set_errno EINVAL w1)
                else
                  (case free pv w1 of None \<Rightarrow> Fault
                   | Some w2 \<Rightarrow>
                       (case store sem NULL w2 of None \<Rightarrow> Fault
                        | Some w3 \<Rightarrow> Done 0 w3)))))"

definition sem_open :: "nat \<Rightarrow> string \<Rightarrow> 32 word \<Rightarrow> nat \<Rightarrow> 32 word \<Rightarrow> world \<Rightarrow> nat outcome" where
  "sem_open vmax name oflag mode val w =
     (let len = int32 (int (strlen name)) in
      if val > word_of_nat vmax \<or> len > 512 - 8 \<or> len < 1
      then Done NULL (snd (set_errno EINVAL w))
      else
        (case calloc w of (pv, w1) \<Rightarrow>
           if pv = NULL then Done NULL (snd (set_errno ENOMEM w1))
           else
             (let buffer = global_prefix @ take (nat len) name
              in case CreateSemaphore (sint val) (int32 (int vmax)) buffer w1 of (h, w2) \<Rightarrow>
                   (case store pv h w2 of None \<Rightarrow> Fault
                    | Some w3 \<Rightarrow>
                        if h = NULL then
                          (let w4 = snd (set_errno
                                 (if GetLastError w3 = ERROR_ACCESS_DENIED then EACCES
                                  else if GetLastError w3 = ERROR_INVALID_HANDLE then ENOENT
                                  else ENOSPC) w3)
                           in case free pv w4 of None \<Rightarrow> Fault
                              | Some w5 \<Rightarrow> Done NULL w5)
                        else if GetLastError w3 = ERROR_ALREADY_EXISTS then
                          (if oflag AND O_CREAT \<noteq> 0 \<and> oflag AND O_EXCL \<noteq> 0 then
                             (case load pv w3 of None \<Rightarrow> Fault
                              | Some h' \<Rightarrow>
                                  (case free pv (snd (CloseHandle h' w3)) of None \<Rightarrow> Fault
                                   | Some w5 \<Rightarrow> Done NULL (snd (set_errno EEXIST w5))))
                           else Done pv w3)
                        else if \<not> (oflag AND O_CREAT \<noteq> 0) then
                          (case free pv w3 of None \<Rightarrow> Fault
                           | Some w4 \<Rightarrow> Done NULL (snd (set_errno ENOENT w4)))
                        else Done pv w3))))"

definition sem_close :: "nat \<Rightarrow> world \<Rightarrow> int outcome" where
  "sem_close sem w = sem_destroy sem w"

definition sem_unlink :: "string \<Rightarrow> world \<Rightarrow> int outcome" where
  "sem_unlink name w = Done 0 w"

section \<open>Notions the statements use\<close>

text \<open>The \<^verbatim>\<open>int len\<close> of \<^verbatim>\<open>sem_open\<close>, and the name \<^verbatim>\<open>sem_open\<close> gives the kernel:
  the prefix and the first \<open>len\<close> characters of the name.\<close>

definition name_len :: "string \<Rightarrow> int" where
  "name_len name = int32 (int (strlen name))"

definition sem_name :: "string \<Rightarrow> string" where
  "sem_name name = global_prefix @ take (nat (name_len name)) name"

text \<open>What the kernel keeps true of its semaphores: the counter is within the maximum,
  and the maximum is a \<^verbatim>\<open>LONG\<close>.\<close>

definition kernel_ok :: "world \<Rightarrow> bool" where
  "kernel_ok w =
     (\<forall>obj ks. objects w obj = Some ks \<longrightarrow> kcount ks \<le> kmax ks \<and> kmax ks \<le> LONG_MAX)"

text \<open>The result of \<^verbatim>\<open>sem_trywait\<close> with the classification of \<^verbatim>\<open>sem_timedwait\<close>: a
  failure reported as \<open>EAGAIN\<close> reads \<open>ETIMEDOUT\<close>; nothing else differs.\<close>

definition as_timedwait :: "int outcome \<Rightarrow> int outcome" where
  "as_timedwait out =
     (case out of
        Done r w' \<Rightarrow>
          if r = - 1 \<and> errno w' = EAGAIN then Done r (w'\<lparr>errno := ETIMEDOUT\<rparr>)
          else Done r w'
      | Blocked \<Rightarrow> Blocked
      | Fault \<Rightarrow> Fault)"

text \<open>A process that has no semaphore yet, and the world after its first successful
  \<^verbatim>\<open>sem_open\<close> of the name \<open>nm\<close> with initial value \<open>n\<close> and
  \<^verbatim>\<open>SEM_VALUE_MAX\<close> = 2147483647: the wrapper is the block at 4096, it holds the
  handle 1, and the handle is bound to the kernel object 1.\<close>

definition initial_world :: world where
  "initial_world =
     \<lparr>memory = Map.empty, blocks = {}, heap_top = 4095, heap_avail = 16,
      handles = Map.empty, objects = Map.empty, namespace = Map.empty,
      last_handle = 0, last_object = 0, create_fault = ERROR_SUCCESS,
      last_error = ERROR_SUCCESS, errno = ENONE, clock = 0\<rparr>"

definition opened_world :: "string \<Rightarrow> nat \<Rightarrow> world" where
  "opened_world nm n =
     \<lparr>memory = [4096 \<mapsto> 1], blocks = {4096}, heap_top = 4096, heap_avail = 15,
      handles = [1 \<mapsto> 1],
      objects = [1 \<mapsto> \<lparr>kcount = n, kmax = 2147483647, krefs = 1,
                          kname = global_prefix @ nm\<rparr>],
      namespace = [global_prefix @ nm \<mapsto> 1],
      last_handle = 1, last_object = 1, create_fault = ERROR_SUCCESS,
      last_error = ERROR_SUCCESS, errno = ENONE, clock = 0\<rparr>"

text \<open>The world after \<^verbatim>\<open>sem_open("x", 0, mode, 0)\<close> in \<open>initial_world\<close>, where no
  semaphore named \<open>x\<close> exists: the wrapper is gone, the handle 1 and the object it made
  are not.\<close>

definition leaked_world :: world where
  "leaked_world = (opened_world ''x'' 0)\<lparr>memory := Map.empty, blocks := {}, errno := ENOENT\<rparr>"

section \<open>Conversions and strings\<close>

lemma int32_id: "- 2147483648 \<le> x \<Longrightarrow> x < 2147483648 \<Longrightarrow> int32 x = x"
  by (simp add: int32_def sint_sbintrunc' signed_take_bit_int_eq_self)

lemma unat_vmax: "vmax \<le> LONG_MAX \<Longrightarrow> unat (word_of_nat vmax :: 32 word) = vmax"
  by (simp add: unat_of_nat)

lemma val_in_range:
  "unat (val :: 32 word) \<le> vmax \<Longrightarrow> vmax \<le> LONG_MAX \<Longrightarrow> \<not> word_of_nat vmax < val"
  by (simp add: word_less_nat_alt unat_vmax)

lemma val_out_of_range:
  assumes "vmax < unat (val :: 32 word)"
  shows "word_of_nat vmax < val"
proof -
  have "unat (word_of_nat vmax :: 32 word) \<le> vmax"
    by (simp add: unat_of_nat)
  with assms show ?thesis by (simp add: word_less_nat_alt)
qed

lemma sint_small:
  assumes "unat (val :: 32 word) \<le> LONG_MAX"
  shows "sint val = int (unat val)"
proof -
  have nn: "0 \<le> uint val" by simp
  have "- (2 ^ 31) \<le> (0 :: int)" by simp
  from this nn have lo: "- (2 ^ 31) \<le> uint val" by (rule order_trans)
  have "int (unat val) \<le> 2147483647" using assms by linarith
  then have "uint val \<le> 2147483647" by simp
  then have hi: "uint val < 2 ^ 31" by simp
  have "sint val = signed_take_bit 31 (uint val)" by (simp add: sint_uint)
  also have "\<dots> = uint val"
    using lo hi by (rule signed_take_bit_int_eq_self)
  finally show ?thesis by simp
qed

lemma create_args:
  assumes "unat (val :: 32 word) \<le> vmax" "0 < vmax" "vmax \<le> LONG_MAX"
  shows "0 \<le> sint val" "sint val \<le> int32 (int vmax)" "0 < int32 (int vmax)"
    "nat (sint val) = unat val" "nat (int32 (int vmax)) = vmax"
proof -
  have v: "int32 (int vmax) = int vmax" using assms by (simp add: int32_id)
  have s: "sint val = int (unat val)" using assms by (intro sint_small) simp
  show "0 \<le> sint val" by (simp add: s)
  show "sint val \<le> int32 (int vmax)" using assms by (simp only: s v of_nat_le_iff)
  show "0 < int32 (int vmax)" using assms by (simp add: v)
  show "nat (sint val) = unat val" by (simp only: s nat_int)
  show "nat (int32 (int vmax)) = vmax" by (simp only: v nat_int)
qed

lemma global_prefix_nonempty: "global_prefix \<noteq> []"
  by (simp add: global_prefix_def)

lemma strlen_replicate: "c \<noteq> CHR 0x00 \<Longrightarrow> strlen (replicate n c) = n"
  by (induction n) (simp_all add: strlen_def)

lemma name_len_short: "strlen name \<le> 504 \<Longrightarrow> name_len name = int (strlen name)"
  by (simp add: name_len_def int32_id)

lemma int32_le: "int32 x \<le> 2147483647"
  using sint_lt [of "word_of_int x :: 32 word"] by (simp add: int32_def)

lemma w32_period: "(word_of_int (x - 4294967296) :: 32 word) = word_of_int x"
  by simp

lemma int32_upper_half:
  assumes "2147483648 \<le> x" "x < 4294967296"
  shows "int32 x = x - 4294967296"
proof -
  have "int32 x = int32 (x - 4294967296)"
    by (simp only: int32_def w32_period)
  also have "\<dots> = x - 4294967296"
    using assms by (intro int32_id) simp_all
  finally show ?thesis .
qed

lemma len_long:
  assumes "504 < strlen name" "strlen name < 4294967296"
  shows "504 < int32 (int (strlen name)) \<or> int32 (int (strlen name)) < 1"
proof (cases "strlen name < 2147483648")
  case True
  then have "int32 (int (strlen name)) = int (strlen name)" by (simp add: int32_id)
  with assms show ?thesis by simp
next
  case False
  then have "int32 (int (strlen name)) = int (strlen name) - 4294967296"
    using assms by (intro int32_upper_half) simp_all
  with assms show ?thesis by simp
qed

section \<open>The host's calls\<close>

lemma wait0_returns: "WaitForSingleObject h 0 w \<noteq> None"
  by (simp add: WaitForSingleObject_def split: option.splits)

lemma wait0_clock: "WaitForSingleObject h 0 w = Some (rc, w1) \<Longrightarrow> clock w1 = clock w"
  by (auto simp: WaitForSingleObject_def SetLastError_def split: option.splits if_splits)

lemma free_gone: "free p w = Some w2 \<Longrightarrow> p \<noteq> NULL \<Longrightarrow> memory w2 p = None"
  by (auto simp: free_def split: if_splits)

lemma close_fail_keeps:
  "CloseHandle h w = (False, w1) \<Longrightarrow> w1 = w\<lparr>last_error := ERROR_INVALID_HANDLE\<rparr>"
  by (auto simp: CloseHandle_def SetLastError_def split: option.splits)

lemma rel_time_past: "timespec_ns t \<le> clock w \<Longrightarrow> arch_rel_time_in_ms t w = 0"
  by (simp add: arch_rel_time_in_ms_def)

section \<open>Reading the counter: \<^verbatim>\<open>sem_getvalue\<close>\<close>



section \<open>Null handles\<close>

text \<open>Five of the six routines that take a handle test it before they use it.\<close>

lemma sem_wait_null: "sem_wait NULL w = Done (- 1) (w\<lparr>errno := EINVAL\<rparr>)"
  by (simp add: sem_wait_def ret_def set_errno_def)

lemma sem_trywait_null: "sem_trywait NULL w = Done (- 1) (w\<lparr>errno := EINVAL\<rparr>)"
  by (simp add: sem_trywait_def ret_def set_errno_def)

lemma sem_timedwait_null: "sem_timedwait NULL t w = Done (- 1) (w\<lparr>errno := EINVAL\<rparr>)"
  by (simp add: sem_timedwait_def ret_def set_errno_def)

lemma sem_post_null: "sem_post NULL w = Done (- 1) (w\<lparr>errno := EINVAL\<rparr>)"
  by (simp add: sem_post_def ret_def set_errno_def)

lemma sem_destroy_null: "sem_destroy NULL w = Done (- 1) (w\<lparr>errno := EINVAL\<rparr>)"
  by (simp add: sem_destroy_def ret_def set_errno_def)

lemma sem_close_null: "sem_close NULL w = Done (- 1) (w\<lparr>errno := EINVAL\<rparr>)"
  by (simp add: sem_close_def sem_destroy_null)

text \<open>
  C2. Every routine that takes a semaphore handle should fail with \<open>EINVAL\<close> on a null
  handle instead of dereferencing it. \<^verbatim>\<open>sem_getvalue\<close> has no such test: on a null
  handle it reads \<^verbatim>\<open>pv->handle\<close> through the null pointer, in every world.
\<close>

theorem sem_getvalue_null_dereferences: "sem_getvalue NULL w = Fault"
  by (simp add: sem_getvalue_def load_def)

section \<open>Waiting with a deadline: \<^verbatim>\<open>sem_timedwait\<close>\<close>

text \<open>
  C7. With a deadline that is not after the current time, the relative duration handed
  to the native wait is 0 (the difference, floored at zero), and \<^verbatim>\<open>sem_timedwait\<close>
  does what \<^verbatim>\<open>sem_trywait\<close> does in the same world: the same result and the same
  world after it, except that the failure at counter 0 is classified \<open>ETIMEDOUT\<close>
  instead of \<open>EAGAIN\<close>. It does not block, and no time passes.
\<close>

theorem timedwait_past_deadline:
  assumes "timespec_ns abs_timeout \<le> clock w"
  shows "arch_rel_time_in_ms abs_timeout w = 0
       \<and> sem_timedwait sem abs_timeout w = as_timedwait (sem_trywait sem w)
       \<and> sem_timedwait sem abs_timeout w \<noteq> Blocked
       \<and> (\<forall>r w'. sem_timedwait sem abs_timeout w = Done r w' \<longrightarrow> clock w' = clock w)"
proof -
  have z: "arch_rel_time_in_ms abs_timeout w = 0" using assms by (rule rel_time_past)
  have "sem_timedwait sem abs_timeout w = as_timedwait (sem_trywait sem w)
      \<and> sem_timedwait sem abs_timeout w \<noteq> Blocked
      \<and> (\<forall>r w'. sem_timedwait sem abs_timeout w = Done r w' \<longrightarrow> clock w' = clock w)"
  proof (cases "load sem w")
    case None
    then show ?thesis
      by (simp add: sem_timedwait_def sem_trywait_def as_timedwait_def ret_def set_errno_def)
  next
    case (Some h)
    obtain rc w1 where wt: "WaitForSingleObject h 0 w = Some (rc, w1)"
      using wait0_returns [of h w] by auto
    have "clock w1 = clock w" using wt by (rule wait0_clock)
    then show ?thesis using Some wt
      by (simp add: sem_timedwait_def sem_trywait_def z as_timedwait_def ret_def set_errno_def)
  qed
  with z show ?thesis by blast
qed

theorem timedwait_past_deadline_witness:
  "timespec_ns \<lparr>tv_sec = - 1, tv_nsec = 0\<rparr> \<le> clock (opened_world ''x'' 0)
   \<and> sem_trywait 4096 (opened_world ''x'' 0)
       = Done (- 1) ((opened_world ''x'' 0)\<lparr>errno := EAGAIN\<rparr>)
   \<and> sem_timedwait 4096 \<lparr>tv_sec = - 1, tv_nsec = 0\<rparr> (opened_world ''x'' 0)
       = Done (- 1) ((opened_world ''x'' 0)\<lparr>errno := ETIMEDOUT\<rparr>)"
proof -
  have h: "timespec_ns \<lparr>tv_sec = - 1, tv_nsec = 0\<rparr> \<le> clock (opened_world ''x'' 0)"
    by (simp add: timespec_ns_def opened_world_def)
  have t: "sem_trywait 4096 (opened_world ''x'' 0)
      = Done (- 1) ((opened_world ''x'' 0)\<lparr>errno := EAGAIN\<rparr>)"
    by (simp add: sem_trywait_def load_def WaitForSingleObject_def object_of_def ret_def
        set_errno_def opened_world_def)
  show ?thesis
    using h t timedwait_past_deadline [OF h, THEN conjunct2, THEN conjunct1, of 4096]
    by (simp add: as_timedwait_def)
qed

section \<open>Releasing: \<^verbatim>\<open>sem_post\<close>\<close>



section \<open>Destroying: \<^verbatim>\<open>sem_destroy\<close>\<close>

text \<open>Whatever \<^verbatim>\<open>sem_destroy\<close> returns, it returns after the null test or after a
  failed close.\<close>

lemma sem_destroy_failure:
  assumes "sem_destroy sem w = Done r w'"
  shows "r = - 1" "errno w' = EINVAL" "memory w' = memory w" "blocks w' = blocks w"
    "handles w' = handles w" "objects w' = objects w"
  using assms
  by (auto simp: sem_destroy_def ret_def set_errno_def store_def
      dest: free_gone close_fail_keeps split: option.splits prod.splits if_splits)

text \<open>
  C10. When the native close fails, \<^verbatim>\<open>sem_destroy\<close> returns -1 with \<open>EINVAL\<close> and
  touches neither the wrapper nor any cell of memory: only the two error slots
  change. More generally every failing return of \<^verbatim>\<open>sem_destroy\<close> reports \<open>EINVAL\<close>
  and leaves memory, the heap, the handle table and the kernel objects as they were;
  \<^verbatim>\<open>free\<close> and the store of \<open>NULL\<close> are on the path after a successful close only.
\<close>

theorem destroy_atomic_on_error:
  "(load sem w = Some h \<and> \<not> fst (CloseHandle h w) \<longrightarrow>
      sem_destroy sem w
        = Done (- 1) (w\<lparr>last_error := ERROR_INVALID_HANDLE, errno := EINVAL\<rparr>))
   \<and> (\<forall>r w'. sem_destroy sem w = Done r w' \<and> r \<noteq> 0 \<longrightarrow>
         r = - 1 \<and> errno w' = EINVAL \<and> memory w' = memory w \<and> blocks w' = blocks w
         \<and> handles w' = handles w \<and> objects w' = objects w)"
proof (intro conjI impI allI)
  assume a: "load sem w = Some h \<and> \<not> fst (CloseHandle h w)"
  then have n: "sem \<noteq> NULL" by (auto simp: load_def split: if_splits)
  obtain ok w1 where c: "CloseHandle h w = (ok, w1)" by (cases "CloseHandle h w")
  with a have "\<not> ok" by simp
  with c have "w1 = w\<lparr>last_error := ERROR_INVALID_HANDLE\<rparr>" by (simp add: close_fail_keeps)
  with a n c \<open>\<not> ok\<close>
  show "sem_destroy sem w = Done (- 1) (w\<lparr>last_error := ERROR_INVALID_HANDLE, errno := EINVAL\<rparr>)"
    by (simp add: sem_destroy_def ret_def set_errno_def)
next
  fix r w'
  assume "sem_destroy sem w = Done r w' \<and> r \<noteq> 0"
  then have "sem_destroy sem w = Done r w'" by simp
  then show "r = - 1" "errno w' = EINVAL" "memory w' = memory w" "blocks w' = blocks w"
    "handles w' = handles w" "objects w' = objects w"
    by (simp_all add: sem_destroy_failure)
qed

theorem destroy_atomic_on_error_witness:
  "load 4096 ((opened_world ''x'' 3)\<lparr>handles := Map.empty\<rparr>) = Some 1
   \<and> \<not> fst (CloseHandle 1 ((opened_world ''x'' 3)\<lparr>handles := Map.empty\<rparr>))
   \<and> sem_destroy 4096 ((opened_world ''x'' 3)\<lparr>handles := Map.empty\<rparr>)
       = Done (- 1) ((opened_world ''x'' 3)
            \<lparr>handles := Map.empty, last_error := ERROR_INVALID_HANDLE, errno := EINVAL\<rparr>)"
  using destroy_atomic_on_error
      [THEN conjunct1, of 4096 "(opened_world ''x'' 3)\<lparr>handles := Map.empty\<rparr>" 1]
  by (simp add: load_def CloseHandle_def object_of_def SetLastError_def opened_world_def)

text \<open>
  The path after a successful close. \<^verbatim>\<open>pv\<close> is \<^verbatim>\<open>(arch_sem_t *) sem\<close>, the address
  \<^verbatim>\<open>sem\<close> itself, so \<^verbatim>\<open>*sem = NULL\<close> after \<^verbatim>\<open>free(pv)\<close> is a store into the block
  that was just freed. No call of \<^verbatim>\<open>sem_destroy\<close> returns 0, and on a live handle the
  call ends in that store.
\<close>

lemma sem_destroy_never_succeeds: "sem_destroy sem w \<noteq> Done 0 w'"
  by (auto simp: sem_destroy_def ret_def set_errno_def store_def dest: free_gone
      split: option.splits prod.splits if_splits)

lemma sem_destroy_live:
  assumes "load sem w = Some h" and "object_of h w = Some (obj, ks)" and "sem \<in> blocks w"
  shows "sem_destroy sem w = Fault"
  using assms
  by (auto simp: sem_destroy_def CloseHandle_def load_def free_def store_def split: if_splits)

text \<open>
  C9. \<^verbatim>\<open>sem_destroy\<close> on success should free the wrapper and set the caller's handle
  reference to null, so that a second \<^verbatim>\<open>sem_destroy\<close> fails with \<open>EINVAL\<close>. On the
  handle that \<^verbatim>\<open>sem_open\<close> returned (the wrapper at 4096, open on a semaphore), the
  routine closes the handle, frees the wrapper and then stores \<open>NULL\<close> through the
  freed pointer: it does not return.
\<close>

theorem sem_destroy_stores_into_freed_wrapper:
  "sem_destroy 4096 (opened_world ''x'' 3) = Fault"
  using sem_destroy_live [of 4096 "opened_world ''x'' 3" 1 1
      "\<lparr>kcount = 3, kmax = 2147483647, krefs = 1, kname = global_prefix @ ''x''\<rparr>"]
  by (simp add: load_def object_of_def opened_world_def)

section \<open>Named semaphores: \<^verbatim>\<open>sem_open\<close>\<close>

text \<open>
  The arguments of the statements below pass the tests of \<^verbatim>\<open>sem_open\<close>
  (\<open>unat val \<le> vmax\<close>, \<open>len\<close> from 1 to 504), \<^verbatim>\<open>SEM_VALUE_MAX\<close> is a positive
  \<^verbatim>\<open>LONG\<close>, the allocator has a block left and the kernel does not fail the creation.
  The wrapper is then the block at \<open>Suc (heap_top w)\<close> and the native reference is
  the handle \<open>Suc (last_handle w)\<close>.
\<close>

lemma sem_open_not_found_path:
  assumes "unat val \<le> vmax" "0 < vmax" "vmax \<le> LONG_MAX"
    and "1 \<le> name_len name" "name_len name \<le> 504"
    and "heap_avail w \<noteq> 0" "create_fault w = ERROR_SUCCESS"
    and "namespace w (sem_name name) = None"
    and "oflag AND O_CREAT = 0"
  shows "\<exists>w'. sem_open vmax name oflag mode val w = Done NULL w' \<and> errno w' = ENOENT
        \<and> blocks w' = blocks w - {Suc (heap_top w)}
        \<and> memory w' = (memory w)(Suc (heap_top w) := None)
        \<and> handles w' = (handles w)(Suc (last_handle w) \<mapsto> Suc (last_object w))
        \<and> namespace w' = (namespace w)(sem_name name \<mapsto> Suc (last_object w))"
proof -
  note ca = create_args [OF assms(1-3)]
  have nv: "\<not> word_of_nat vmax < val" using assms(1,3) by (rule val_in_range)
  have ln: "int32 (int (strlen name)) = name_len name" by (simp add: name_len_def)
  show ?thesis
    using assms(4-) ca(1-3) nv global_prefix_nonempty
    by (simp add: sem_open_def calloc_def CreateSemaphore_def store_def load_def free_def
        set_errno_def GetLastError_def SetLastError_def Let_def sem_name_def ln)
qed

text \<open>
  C4. Called with \<^verbatim>\<open>O_CREAT\<close> and \<^verbatim>\<open>O_EXCL\<close> for a name the kernel already has
  (the native creation gives a handle and reports \<open>ERROR_ALREADY_EXISTS\<close>),
  \<^verbatim>\<open>sem_open\<close> returns \<open>NULL\<close> with \<open>EEXIST\<close>; the handle it had just obtained is
  closed again and the wrapper it had allocated is freed.
\<close>

theorem sem_open_exclusive_conflict:
  assumes "unat val \<le> vmax" "0 < vmax" "vmax \<le> LONG_MAX"
    and "1 \<le> name_len name" "name_len name \<le> 504"
    and "heap_avail w \<noteq> 0" "create_fault w = ERROR_SUCCESS"
    and "namespace w (sem_name name) = Some obj" "objects w obj = Some ks"
    and "oflag AND O_CREAT \<noteq> 0" "oflag AND O_EXCL \<noteq> 0"
  shows "\<exists>w'. sem_open vmax name oflag mode val w = Done NULL w' \<and> errno w' = EEXIST
        \<and> handles w' = (handles w)(Suc (last_handle w) := None)
        \<and> blocks w' = blocks w - {Suc (heap_top w)}
        \<and> memory w' = (memory w)(Suc (heap_top w) := None)"
proof -
  note ca = create_args [OF assms(1-3)]
  have nv: "\<not> word_of_nat vmax < val" using assms(1,3) by (rule val_in_range)
  have ln: "int32 (int (strlen name)) = name_len name" by (simp add: name_len_def)
  show ?thesis
    using assms(4-) ca(1-3) nv global_prefix_nonempty
    by (simp add: sem_open_def calloc_def CreateSemaphore_def store_def load_def free_def
        CloseHandle_def object_of_def set_errno_def GetLastError_def SetLastError_def Let_def
        sem_name_def ln)
qed

theorem sem_open_exclusive_conflict_witness:
  "namespace (opened_world ''x'' 3) (sem_name ''x'') = Some 1
   \<and> (0x500 :: 32 word) AND O_CREAT \<noteq> 0 \<and> (0x500 :: 32 word) AND O_EXCL \<noteq> 0
   \<and> (\<exists>w'. sem_open 2147483647 ''x'' 0x500 0 5 (opened_world ''x'' 3) = Done NULL w'
         \<and> errno w' = EEXIST
         \<and> handles w' = (handles (opened_world ''x'' 3))(2 := None)
         \<and> blocks w' = blocks (opened_world ''x'' 3) - {4097}
         \<and> memory w' = (memory (opened_world ''x'' 3))(4097 := None))"
proof -
  have n: "namespace (opened_world ''x'' 3) (sem_name ''x'') = Some 1"
    by (simp add: opened_world_def sem_name_def name_len_def strlen_def int32_def)
  have o: "objects (opened_world ''x'' 3) 1
      = Some \<lparr>kcount = 3, kmax = 2147483647, krefs = 1, kname = global_prefix @ ''x''\<rparr>"
    by (simp add: opened_world_def)
  have f: "(0x500 :: 32 word) AND O_CREAT \<noteq> 0" "(0x500 :: 32 word) AND O_EXCL \<noteq> 0"
    by simp_all
  have "\<exists>w'. sem_open 2147483647 ''x'' 0x500 0 5 (opened_world ''x'' 3) = Done NULL w'
         \<and> errno w' = EEXIST
         \<and> handles w' = (handles (opened_world ''x'' 3))
               (Suc (last_handle (opened_world ''x'' 3)) := None)
         \<and> blocks w' = blocks (opened_world ''x'' 3) - {Suc (heap_top (opened_world ''x'' 3))}
         \<and> memory w' = (memory (opened_world ''x'' 3))
               (Suc (heap_top (opened_world ''x'' 3)) := None)"
    by (rule sem_open_exclusive_conflict [OF _ _ _ _ _ _ _ n o f])
       (simp_all add: name_len_def strlen_def int32_def opened_world_def)
  moreover have "Suc (last_handle (opened_world ''x'' 3)) = 2"
    "Suc (heap_top (opened_world ''x'' 3)) = 4097"
    by (simp_all add: opened_world_def)
  ultimately show ?thesis using n f by simp
qed

text \<open>
  C5. Called without \<^verbatim>\<open>O_CREAT\<close> for a name the kernel does not have (the native
  creation makes a new object and reports no earlier one), \<^verbatim>\<open>sem_open\<close> returns
  \<open>NULL\<close> with \<open>ENOENT\<close>, and the wrapper it had allocated is freed.
\<close>

theorem sem_open_strict_not_found:
  assumes "unat val \<le> vmax" "0 < vmax" "vmax \<le> LONG_MAX"
    and "1 \<le> name_len name" "name_len name \<le> 504"
    and "heap_avail w \<noteq> 0" "create_fault w = ERROR_SUCCESS"
    and "namespace w (sem_name name) = None"
    and "oflag AND O_CREAT = 0"
  shows "\<exists>w'. sem_open vmax name oflag mode val w = Done NULL w' \<and> errno w' = ENOENT
        \<and> blocks w' = blocks w - {Suc (heap_top w)}
        \<and> memory w' = (memory w)(Suc (heap_top w) := None)"
  using sem_open_not_found_path [OF assms, of mode] by blast

theorem sem_open_strict_not_found_witness:
  "namespace initial_world (sem_name ''x'') = None
   \<and> (\<exists>w'. sem_open 2147483647 ''x'' 0 0 0 initial_world = Done NULL w' \<and> errno w' = ENOENT
         \<and> blocks w' = blocks initial_world - {4096}
         \<and> memory w' = (memory initial_world)(4096 := None))"
proof -
  have n: "namespace initial_world (sem_name ''x'') = None"
    by (simp add: initial_world_def)
  have "\<exists>w'. sem_open 2147483647 ''x'' 0 0 0 initial_world = Done NULL w' \<and> errno w' = ENOENT
         \<and> blocks w' = blocks initial_world - {Suc (heap_top initial_world)}
         \<and> memory w' = (memory initial_world)(Suc (heap_top initial_world) := None)"
    by (rule sem_open_strict_not_found [OF _ _ _ _ _ _ _ n])
       (simp_all add: name_len_def strlen_def int32_def initial_world_def)
  moreover have "Suc (heap_top initial_world) = 4096"
    by (simp add: initial_world_def)
  ultimately show ?thesis using n by simp
qed

text \<open>
  C3. Every failure of \<^verbatim>\<open>sem_open\<close> after a native reference was obtained should close
  that reference and free the wrapper. The exclusive-create conflict does both.
  The strict open-existing failure frees the wrapper only: \<^verbatim>\<open>sem_open("x", 0, mode, 0)\<close> in a process without semaphores returns \<open>NULL\<close>
  with \<open>ENOENT\<close> and no block of the heap, while the handle 1 that
  \<^verbatim>\<open>CreateSemaphore\<close> returned is still open, on the object the call created under
  that name.
\<close>

theorem sem_open_not_found_leaks_handle:
  "sem_open 2147483647 ''x'' 0 0 0 initial_world = Done NULL leaked_world
   \<and> errno leaked_world = ENOENT
   \<and> blocks leaked_world = {}
   \<and> handles leaked_world 1 = Some 1
   \<and> objects leaked_world 1
       = Some \<lparr>kcount = 0, kmax = 2147483647, krefs = 1, kname = sem_name ''x''\<rparr>
   \<and> namespace leaked_world (sem_name ''x'') = Some 1"
  by (simp add: sem_open_def calloc_def CreateSemaphore_def store_def load_def free_def
      set_errno_def GetLastError_def SetLastError_def Let_def initial_world_def
      leaked_world_def opened_world_def sem_name_def name_len_def strlen_def int32_def
      global_prefix_def)

text \<open>What the open reference does: the name now exists, and the same strict
  open-existing call, repeated, succeeds on a semaphore nobody created.\<close>

lemma sem_open_after_leak:
  "\<exists>w'. sem_open 2147483647 ''x'' 0 0 0 leaked_world = Done 4097 w'
        \<and> load 4097 w' = Some 2 \<and> handles w' 2 = Some 1"
  by (simp add: sem_open_def calloc_def CreateSemaphore_def store_def load_def free_def
      set_errno_def GetLastError_def SetLastError_def Let_def
      leaked_world_def opened_world_def strlen_def int32_def global_prefix_def)

text \<open>With \<^verbatim>\<open>O_CREAT\<close> and a new name the call succeeds, and what it returns is a live
  handle: the wrapper holds an open handle on a semaphore whose counter is the
  initial value and whose maximum is \<^verbatim>\<open>SEM_VALUE_MAX\<close>.\<close>

lemma sem_open_creates:
  assumes "unat val \<le> vmax" "0 < vmax" "vmax \<le> LONG_MAX"
    and "1 \<le> name_len name" "name_len name \<le> 504"
    and "heap_avail w \<noteq> 0" "create_fault w = ERROR_SUCCESS"
    and "namespace w (sem_name name) = None"
    and "oflag AND O_CREAT \<noteq> 0"
  shows "\<exists>w'. sem_open vmax name oflag mode val w = Done (Suc (heap_top w)) w'
        \<and> load (Suc (heap_top w)) w' = Some (Suc (last_handle w))
        \<and> object_of (Suc (last_handle w)) w'
            = Some (Suc (last_object w),
                    \<lparr>kcount = unat val, kmax = vmax, krefs = 1, kname = sem_name name\<rparr>)"
proof -
  note ca = create_args [OF assms(1-3)]
  have nv: "\<not> word_of_nat vmax < val" using assms(1,3) by (rule val_in_range)
  have ln: "int32 (int (strlen name)) = name_len name" by (simp add: name_len_def)
  show ?thesis
    using assms(4-) ca nv global_prefix_nonempty
    by (simp add: sem_open_def calloc_def CreateSemaphore_def store_def load_def
        object_of_def GetLastError_def SetLastError_def Let_def sem_name_def ln)
qed

lemma sem_open_first:
  "sem_open 2147483647 ''x'' O_CREAT 0 3 initial_world = Done 4096 (opened_world ''x'' 3)"
  by (simp add: sem_open_def calloc_def CreateSemaphore_def store_def load_def
      GetLastError_def SetLastError_def Let_def initial_world_def opened_world_def
      strlen_def int32_def global_prefix_def)

section \<open>Validation of the arguments\<close>

text \<open>What the tests at the head of \<^verbatim>\<open>sem_init\<close> and \<^verbatim>\<open>sem_open\<close> reject, before
  anything is allocated or created: only \<^verbatim>\<open>errno\<close> changes.\<close>

lemma sem_init_invalid:
  "sem = NULL \<or> vmax < unat val \<Longrightarrow>
     sem_init vmax sem pshared val w = Done (- 1) (w\<lparr>errno := EINVAL\<rparr>)"
  by (auto simp: sem_init_def ret_def set_errno_def dest: val_out_of_range)

lemma sem_open_invalid:
  assumes "vmax < unat val \<or> strlen name = 0
           \<or> (504 < strlen name \<and> strlen name < 4294967296)"
  shows "sem_open vmax name oflag mode val w = Done NULL (w\<lparr>errno := EINVAL\<rparr>)"
proof -
  have "word_of_nat vmax < val \<or> 504 < int32 (int (strlen name))
        \<or> int32 (int (strlen name)) < 1"
    using assms
  proof (elim disjE conjE)
    assume "vmax < unat val"
    then show ?thesis by (simp add: val_out_of_range)
  next
    assume "strlen name = 0"
    then show ?thesis by (simp add: int32_def)
  next
    assume "504 < strlen name" "strlen name < 4294967296"
    then show ?thesis using len_long by blast
  qed
  then show ?thesis
    by (auto simp: sem_open_def set_errno_def Let_def)
qed

text \<open>
  C6. \<^verbatim>\<open>sem_init\<close> and \<^verbatim>\<open>sem_open\<close> should fail with \<open>EINVAL\<close>, before any resource
  is acquired, for an initial value above \<^verbatim>\<open>SEM_VALUE_MAX\<close>, and \<^verbatim>\<open>sem_open\<close> also
  for the empty name and for every name too long for its buffer of 512 characters.
  The length is kept in \<^verbatim>\<open>int len\<close>: for a name of 4294967297 characters \<open>len\<close> is 1,
  the test passes, and the call creates the semaphore named by the first character.
\<close>

theorem sem_open_accepts_name_of_4GiB:
  "strlen (replicate 4294967297 (CHR ''a'')) = 4294967297
   \<and> sem_open 2147483647 (replicate 4294967297 (CHR ''a'')) O_CREAT 0 0 initial_world
       = Done 4096 (opened_world ''a'' 0)"
  by (simp add: sem_open_def calloc_def CreateSemaphore_def store_def load_def
      GetLastError_def SetLastError_def Let_def initial_world_def opened_world_def
      strlen_replicate int32_def global_prefix_def)

section \<open>The worlds the routines reach\<close>

text \<open>
  The bounds that the statements about \<^verbatim>\<open>sem_getvalue\<close> ask of a semaphore (counter
  within the maximum, maximum within \<^verbatim>\<open>LONG\<close>) hold of every kernel object in
  \<open>initial_world\<close>, and each host call and each routine keeps them: they hold in every
  world a program reaches through the routines.
\<close>

lemma kernel_ok_same: "kernel_ok w \<Longrightarrow> objects w' = objects w \<Longrightarrow> kernel_ok w'"
  by (simp add: kernel_ok_def)

lemma kernel_okD:
  "kernel_ok w \<Longrightarrow> objects w obj = Some ks \<Longrightarrow> kcount ks \<le> kmax ks \<and> kmax ks \<le> LONG_MAX"
  by (simp add: kernel_ok_def)

lemma kernel_ok_upd:
  "kernel_ok w \<Longrightarrow> kcount ks \<le> kmax ks \<Longrightarrow> kmax ks \<le> LONG_MAX
     \<Longrightarrow> objects w' = (objects w)(obj \<mapsto> ks) \<Longrightarrow> kernel_ok w'"
  by (simp add: kernel_ok_def)

lemma kernel_ok_del:
  "kernel_ok w \<Longrightarrow> objects w' = (objects w)(obj := None) \<Longrightarrow> kernel_ok w'"
  by (simp add: kernel_ok_def)

lemma wait_objects:
  "WaitForSingleObject h t w = Some (rc, w1) \<Longrightarrow>
     objects w1 = objects w
     \<or> (\<exists>obj ks. objects w obj = Some ks
            \<and> objects w1 = (objects w)(obj \<mapsto> ks\<lparr>kcount := kcount ks - 1\<rparr>))"
proof (cases "object_of h w")
  case None
  assume "WaitForSingleObject h t w = Some (rc, w1)"
  with None have "w1 = w\<lparr>last_error := ERROR_INVALID_HANDLE\<rparr>"
    by (simp add: WaitForSingleObject_def SetLastError_def)
  then show ?thesis by simp
next
  case (Some p)
  assume a: "WaitForSingleObject h t w = Some (rc, w1)"
  obtain obj ks where p: "p = (obj, ks)" by (cases p)
  with Some have o: "objects w obj = Some ks"
    by (auto simp: object_of_def split: option.splits)
  show ?thesis
  proof (cases "0 < kcount ks")
    case True
    with a Some p have "w1 = w\<lparr>objects := (objects w)(obj \<mapsto> ks\<lparr>kcount := kcount ks - 1\<rparr>)\<rparr>"
      by (simp add: WaitForSingleObject_def)
    with o show ?thesis by auto
  next
    case False
    with a Some p have "w1 = w\<lparr>clock := clock w + int t * 1000000\<rparr>"
      by (simp add: WaitForSingleObject_def split: if_splits)
    then show ?thesis by simp
  qed
qed

lemma release_objects:
  "ReleaseSemaphore h n w = (r, w1) \<Longrightarrow>
     objects w1 = objects w
     \<or> (\<exists>obj ks. objects w obj = Some ks \<and> 0 < n \<and> int (kcount ks) + n \<le> int (kmax ks)
            \<and> objects w1 = (objects w)(obj \<mapsto> ks\<lparr>kcount := kcount ks + nat n\<rparr>))"
proof (cases "object_of h w")
  case None
  assume "ReleaseSemaphore h n w = (r, w1)"
  with None have "w1 = w\<lparr>last_error := ERROR_INVALID_HANDLE\<rparr>"
    by (simp add: ReleaseSemaphore_def SetLastError_def)
  then show ?thesis by simp
next
  case (Some p)
  assume a: "ReleaseSemaphore h n w = (r, w1)"
  obtain obj ks where p: "p = (obj, ks)" by (cases p)
  with Some have o: "objects w obj = Some ks"
    by (auto simp: object_of_def split: option.splits)
  show ?thesis
  proof (cases "n \<le> 0 \<or> int (kmax ks) < int (kcount ks) + n")
    case True
    with a Some p have "w1 = w\<lparr>last_error := ERROR_TOO_MANY_POSTS\<rparr>"
      by (simp add: ReleaseSemaphore_def SetLastError_def)
    then show ?thesis by simp
  next
    case False
    with a Some p have "w1 = w\<lparr>objects := (objects w)(obj \<mapsto> ks\<lparr>kcount := kcount ks + nat n\<rparr>)\<rparr>"
      by (simp add: ReleaseSemaphore_def)
    then have u: "objects w1 = (objects w)(obj \<mapsto> ks\<lparr>kcount := kcount ks + nat n\<rparr>)"
      by simp
    from False have "0 < n" "int (kcount ks) + n \<le> int (kmax ks)" by simp_all
    with o u show ?thesis by blast
  qed
qed

lemma close_objects:
  "CloseHandle h w = (r, w1) \<Longrightarrow>
     objects w1 = objects w
     \<or> (\<exists>obj. objects w1 = (objects w)(obj := None))
     \<or> (\<exists>obj ks. objects w obj = Some ks
            \<and> objects w1 = (objects w)(obj \<mapsto> ks\<lparr>krefs := krefs ks - 1\<rparr>))"
proof (cases "object_of h w")
  case None
  assume "CloseHandle h w = (r, w1)"
  with None have "w1 = w\<lparr>last_error := ERROR_INVALID_HANDLE\<rparr>"
    by (simp add: CloseHandle_def SetLastError_def)
  then show ?thesis by simp
next
  case (Some p)
  assume a: "CloseHandle h w = (r, w1)"
  obtain obj ks where p: "p = (obj, ks)" by (cases p)
  with Some have o: "objects w obj = Some ks"
    by (auto simp: object_of_def split: option.splits)
  show ?thesis
  proof (cases "krefs ks \<le> 1")
    case True
    with Some p have "objects (snd (CloseHandle h w)) = (objects w)(obj := None)"
      by (simp add: CloseHandle_def)
    then have "objects w1 = (objects w)(obj := None)" by (simp add: a)
    then show ?thesis by blast
  next
    case False
    with Some p have "objects (snd (CloseHandle h w))
        = (objects w)(obj \<mapsto> ks\<lparr>krefs := krefs ks - 1\<rparr>)"
      by (simp add: CloseHandle_def)
    then have "objects w1 = (objects w)(obj \<mapsto> ks\<lparr>krefs := krefs ks - 1\<rparr>)"
      by (simp add: a)
    with o show ?thesis by blast
  qed
qed

lemma create_objects:
  assumes "CreateSemaphore i mx nm w = (h, w1)"
  shows "objects w1 = objects w
     \<or> (\<exists>obj ks. objects w obj = Some ks
            \<and> objects w1 = (objects w)(obj \<mapsto> ks\<lparr>krefs := Suc (krefs ks)\<rparr>))
     \<or> (0 < mx \<and> 0 \<le> i \<and> i \<le> mx
          \<and> objects w1 = (objects w)(Suc (last_object w) \<mapsto>
                \<lparr>kcount = nat i, kmax = nat mx, krefs = 1, kname = nm\<rparr>))"
proof (cases "create_fault w = ERROR_SUCCESS")
  case False
  with assms have "w1 = w\<lparr>last_error := create_fault w\<rparr>"
    by (simp add: CreateSemaphore_def SetLastError_def)
  then show ?thesis by simp
next
  case cf: True
  show ?thesis
  proof (cases "mx \<le> 0 \<or> i < 0 \<or> mx < i")
    case True
    with assms cf have "w1 = w\<lparr>last_error := ERROR_INVALID_PARAMETER\<rparr>"
      by (simp add: CreateSemaphore_def SetLastError_def)
    then show ?thesis by simp
  next
    case False
    then have r: "0 < mx" "0 \<le> i" "i \<le> mx" by simp_all
    let ?found = "if nm = [] then None
                  else (case namespace w nm of None \<Rightarrow> None
                        | Some obj \<Rightarrow> map_option (Pair obj) (objects w obj))"
    show ?thesis
    proof (cases ?found)
      case None
      with cf False
      have "objects (snd (CreateSemaphore i mx nm w)) = (objects w)(Suc (last_object w) \<mapsto>
                   \<lparr>kcount = nat i, kmax = nat mx, krefs = 1, kname = nm\<rparr>)"
        by (simp add: CreateSemaphore_def)
      then have "objects w1 = (objects w)(Suc (last_object w) \<mapsto>
                   \<lparr>kcount = nat i, kmax = nat mx, krefs = 1, kname = nm\<rparr>)"
        by (simp add: assms)
      with r show ?thesis by blast
    next
      case (Some p)
      obtain obj ks where p: "p = (obj, ks)" by (cases p)
      with Some have o: "objects w obj = Some ks"
        by (auto split: if_splits option.splits)
      from cf False Some p
      have "objects (snd (CreateSemaphore i mx nm w))
          = (objects w)(obj \<mapsto> ks\<lparr>krefs := Suc (krefs ks)\<rparr>)"
        by (simp add: CreateSemaphore_def)
      then have "objects w1 = (objects w)(obj \<mapsto> ks\<lparr>krefs := Suc (krefs ks)\<rparr>)"
        by (simp add: assms)
      with o show ?thesis by blast
    qed
  qed
qed

lemma kernel_ok_wait:
  assumes "kernel_ok w" and "WaitForSingleObject h t w = Some (rc, w1)"
  shows "kernel_ok w1"
proof (cases "objects w1 = objects w")
  case True
  with assms(1) show ?thesis by (rule kernel_ok_same)
next
  case False
  with wait_objects [OF assms(2)] obtain obj ks where o: "objects w obj = Some ks"
    and u: "objects w1 = (objects w)(obj \<mapsto> ks\<lparr>kcount := kcount ks - 1\<rparr>)"
    by (elim disjE exE conjE) simp_all
  from kernel_okD [OF assms(1) o] have c: "kcount ks \<le> kmax ks" and m: "kmax ks \<le> LONG_MAX"
    by blast+
  from c have "kcount (ks\<lparr>kcount := kcount ks - 1\<rparr>) \<le> kmax (ks\<lparr>kcount := kcount ks - 1\<rparr>)"
    by simp
  moreover from m have "kmax (ks\<lparr>kcount := kcount ks - 1\<rparr>) \<le> LONG_MAX"
    by simp
  ultimately show ?thesis using assms(1) u by (intro kernel_ok_upd [OF assms(1) _ _ u])
qed

lemma kernel_ok_release:
  assumes "kernel_ok w" and "ReleaseSemaphore h n w = (r, w1)"
  shows "kernel_ok w1"
proof (cases "objects w1 = objects w")
  case True
  with assms(1) show ?thesis by (rule kernel_ok_same)
next
  case False
  with release_objects [OF assms(2)] obtain obj ks where o: "objects w obj = Some ks"
    and n: "0 < n" "int (kcount ks) + n \<le> int (kmax ks)"
    and u: "objects w1 = (objects w)(obj \<mapsto> ks\<lparr>kcount := kcount ks + nat n\<rparr>)"
    by (elim disjE exE conjE) simp_all
  from kernel_okD [OF assms(1) o] have m: "kmax ks \<le> LONG_MAX"
    by blast
  from n have "kcount ks + nat n \<le> kmax ks" by linarith
  then have "kcount (ks\<lparr>kcount := kcount ks + nat n\<rparr>) \<le> kmax (ks\<lparr>kcount := kcount ks + nat n\<rparr>)"
    by simp
  moreover from m have "kmax (ks\<lparr>kcount := kcount ks + nat n\<rparr>) \<le> LONG_MAX"
    by simp
  ultimately show ?thesis by (intro kernel_ok_upd [OF assms(1) _ _ u])
qed

lemma kernel_ok_close:
  assumes "kernel_ok w" and "CloseHandle h w = (r, w1)"
  shows "kernel_ok w1"
proof -
  from close_objects [OF assms(2)] show ?thesis
  proof (elim disjE exE conjE)
    assume "objects w1 = objects w"
    with assms(1) show ?thesis by (rule kernel_ok_same)
  next
    fix obj
    assume "objects w1 = (objects w)(obj := None)"
    with assms(1) show ?thesis by (rule kernel_ok_del)
  next
    fix obj ks
    assume o: "objects w obj = Some ks"
      and u: "objects w1 = (objects w)(obj \<mapsto> ks\<lparr>krefs := krefs ks - 1\<rparr>)"
    from kernel_okD [OF assms(1) o] have c: "kcount ks \<le> kmax ks" and m: "kmax ks \<le> LONG_MAX"
      by blast+
    from c have "kcount (ks\<lparr>krefs := krefs ks - 1\<rparr>) \<le> kmax (ks\<lparr>krefs := krefs ks - 1\<rparr>)"
      by simp
    moreover from m have "kmax (ks\<lparr>krefs := krefs ks - 1\<rparr>) \<le> LONG_MAX"
      by simp
    ultimately show ?thesis by (intro kernel_ok_upd [OF assms(1) _ _ u])
  qed
qed

lemma kernel_ok_create:
  assumes "kernel_ok w" and "mx \<le> 2147483647" and "CreateSemaphore i mx nm w = (h, w1)"
  shows "kernel_ok w1"
proof -
  from create_objects [OF assms(3)] show ?thesis
  proof (elim disjE exE conjE)
    assume "objects w1 = objects w"
    with assms(1) show ?thesis by (rule kernel_ok_same)
  next
    fix obj ks
    assume o: "objects w obj = Some ks"
      and u: "objects w1 = (objects w)(obj \<mapsto> ks\<lparr>krefs := Suc (krefs ks)\<rparr>)"
    from kernel_okD [OF assms(1) o] have c: "kcount ks \<le> kmax ks" and m: "kmax ks \<le> LONG_MAX"
      by blast+
    from c have "kcount (ks\<lparr>krefs := Suc (krefs ks)\<rparr>) \<le> kmax (ks\<lparr>krefs := Suc (krefs ks)\<rparr>)"
      by simp
    moreover from m have "kmax (ks\<lparr>krefs := Suc (krefs ks)\<rparr>) \<le> LONG_MAX"
      by simp
    ultimately show ?thesis by (intro kernel_ok_upd [OF assms(1) _ _ u])
  next
    let ?k = "\<lparr>kcount = nat i, kmax = nat mx, krefs = 1, kname = nm\<rparr>"
    assume r: "0 < mx" "0 \<le> i" "i \<le> mx"
      and u: "objects w1 = (objects w)(Suc (last_object w) \<mapsto> ?k)"
    from r have "kcount ?k \<le> kmax ?k" by simp
    moreover from assms(2) have "kmax ?k \<le> LONG_MAX" by simp
    ultimately show ?thesis by (intro kernel_ok_upd [OF assms(1) _ _ u])
  qed
qed

lemma calloc_objects: "calloc w = (p, w1) \<Longrightarrow> objects w1 = objects w"
  by (auto simp: calloc_def split: if_splits)

lemma free_objects: "free p w = Some w1 \<Longrightarrow> objects w1 = objects w"
  by (auto simp: free_def split: if_splits)

lemma store_objects: "store p v w = Some w1 \<Longrightarrow> objects w1 = objects w"
  by (auto simp: store_def split: if_splits)

lemma kernel_ok_sem_post:
  assumes "kernel_ok w" and "sem_post sem w = Done r w'"
  shows "kernel_ok w'"
proof (cases "load sem w")
  case None
  with assms(2) have "objects w' = objects w"
    by (auto simp: sem_post_def ret_def set_errno_def split: if_splits)
  with assms(1) show ?thesis by (rule kernel_ok_same)
next
  case (Some h)
  obtain p w1 where rl: "ReleaseSemaphore h 1 w = (p, w1)" by (cases "ReleaseSemaphore h 1 w")
  from assms(1) rl have k: "kernel_ok w1" by (rule kernel_ok_release)
  from assms(2) Some rl have "objects w' = objects w \<or> objects w' = objects w1"
    by (auto simp: sem_post_def ret_def set_errno_def split: if_splits option.splits)
  then show ?thesis using assms(1) k by (auto intro: kernel_ok_same)
qed

lemma kernel_ok_waiting:
  assumes "kernel_ok w" and "WaitForSingleObject h t w = Some (rc, w1)"
    and "objects w' = objects w \<or> objects w' = objects w1"
  shows "kernel_ok w'"
proof -
  from assms(1,2) have "kernel_ok w1" by (rule kernel_ok_wait)
  with assms(1,3) show ?thesis by (auto intro: kernel_ok_same)
qed

lemma kernel_ok_sem_wait:
  assumes "kernel_ok w" and "sem_wait sem w = Done r w'"
  shows "kernel_ok w'"
proof (cases "load sem w")
  case None
  with assms(2) have "objects w' = objects w"
    by (auto simp: sem_wait_def ret_def set_errno_def split: if_splits)
  with assms(1) show ?thesis by (rule kernel_ok_same)
next
  case (Some h)
  with assms(2) have "sem = NULL \<or> WaitForSingleObject h INFINITE w \<noteq> None"
    by (auto simp: sem_wait_def split: if_splits option.splits)
  then show ?thesis
  proof
    assume "sem = NULL"
    with Some show ?thesis by (simp add: load_def)
  next
    assume "WaitForSingleObject h INFINITE w \<noteq> None"
    then obtain rc w1 where wt: "WaitForSingleObject h INFINITE w = Some (rc, w1)" by auto
    from assms(2) Some wt have "objects w' = objects w \<or> objects w' = objects w1"
      by (auto simp: sem_wait_def ret_def set_errno_def split: if_splits)
    with assms(1) wt show ?thesis by (rule kernel_ok_waiting)
  qed
qed

lemma kernel_ok_sem_trywait:
  assumes "kernel_ok w" and "sem_trywait sem w = Done r w'"
  shows "kernel_ok w'"
proof (cases "load sem w")
  case None
  with assms(2) have "objects w' = objects w"
    by (auto simp: sem_trywait_def ret_def set_errno_def split: if_splits)
  with assms(1) show ?thesis by (rule kernel_ok_same)
next
  case (Some h)
  obtain rc w1 where wt: "WaitForSingleObject h 0 w = Some (rc, w1)"
    using wait0_returns [of h w] by auto
  from assms(2) Some wt have "objects w' = objects w \<or> objects w' = objects w1"
    by (auto simp: sem_trywait_def ret_def set_errno_def split: if_splits)
  with assms(1) wt show ?thesis by (rule kernel_ok_waiting)
qed

lemma kernel_ok_sem_timedwait:
  assumes "kernel_ok w" and "sem_timedwait sem t w = Done r w'"
  shows "kernel_ok w'"
proof (cases "load sem w")
  case None
  with assms(2) have "objects w' = objects w"
    by (auto simp: sem_timedwait_def ret_def set_errno_def split: if_splits)
  with assms(1) show ?thesis by (rule kernel_ok_same)
next
  case (Some h)
  with assms(2)
  have "sem = NULL \<or> WaitForSingleObject h (arch_rel_time_in_ms t w) w \<noteq> None"
    by (auto simp: sem_timedwait_def split: if_splits option.splits)
  then show ?thesis
  proof
    assume "sem = NULL"
    with Some show ?thesis by (simp add: load_def)
  next
    assume "WaitForSingleObject h (arch_rel_time_in_ms t w) w \<noteq> None"
    then obtain rc w1
      where wt: "WaitForSingleObject h (arch_rel_time_in_ms t w) w = Some (rc, w1)" by auto
    from assms(2) Some wt have "objects w' = objects w \<or> objects w' = objects w1"
      by (auto simp: sem_timedwait_def ret_def set_errno_def split: if_splits)
    with assms(1) wt show ?thesis by (rule kernel_ok_waiting)
  qed
qed

lemma kernel_ok_sem_getvalue:
  assumes "kernel_ok w" and "sem_getvalue sem w = Done r w'"
  shows "kernel_ok w'"
proof (cases "load sem w")
  case None
  with assms(2) show ?thesis by (simp add: sem_getvalue_def)
next
  case (Some h)
  obtain rc w1 where wt: "WaitForSingleObject h 0 w = Some (rc, w1)"
    using wait0_returns [of h w] by auto
  from assms(1) wt have k1: "kernel_ok w1" by (rule kernel_ok_wait)
  obtain p w2 where rl: "ReleaseSemaphore h 1 w1 = (p, w2)" by (cases "ReleaseSemaphore h 1 w1")
  from k1 rl have k2: "kernel_ok w2" by (rule kernel_ok_release)
  from assms(2) Some wt rl have "objects w' = objects w1 \<or> objects w' = objects w2"
    by (auto simp: sem_getvalue_def set_errno_def split: if_splits option.splits)
  then show ?thesis using k1 k2 by (auto intro: kernel_ok_same)
qed

lemma kernel_ok_sem_destroy:
  assumes "kernel_ok w" and "sem_destroy sem w = Done r w'"
  shows "kernel_ok w'"
proof -
  from assms(2) have "objects w' = objects w" by (rule sem_destroy_failure)
  with assms(1) show ?thesis by (rule kernel_ok_same)
qed

lemma kernel_ok_sem_open:
  assumes "kernel_ok w" and "sem_open vmax name oflag mode val w = Done r w'"
  shows "kernel_ok w'"
proof (cases "word_of_nat vmax < val \<or> 504 < int32 (int (strlen name))
              \<or> int32 (int (strlen name)) < 1")
  case True
  with assms(2) have "objects w' = objects w"
    by (auto simp: sem_open_def Let_def set_errno_def)
  with assms(1) show ?thesis by (rule kernel_ok_same)
next
  case False
  obtain pv w1 where c: "calloc w = (pv, w1)" by (cases "calloc w")
  then have o1: "objects w1 = objects w" by (rule calloc_objects)
  with assms(1) have k1: "kernel_ok w1" by (rule kernel_ok_same)
  let ?nm = "global_prefix @ take (nat (int32 (int (strlen name)))) name"
  obtain h w2 where cr: "CreateSemaphore (sint val) (int32 (int vmax)) ?nm w1 = (h, w2)"
    by (cases "CreateSemaphore (sint val) (int32 (int vmax)) ?nm w1")
  have k2: "kernel_ok w2" using k1 int32_le cr by (rule kernel_ok_create)
  show ?thesis
  proof (cases "pv = NULL")
    case True
    with assms(2) False c have "objects w' = objects w1"
      by (auto simp: sem_open_def Let_def set_errno_def)
    with k1 show ?thesis by (rule kernel_ok_same)
  next
    case pv: False
    show ?thesis
    proof (cases "store pv h w2")
      case None
      with assms(2) False c pv cr show ?thesis
        by (auto simp: sem_open_def Let_def)
    next
      case (Some w3)
      then have o3: "objects w3 = objects w2" by (rule store_objects)
      with k2 have k3: "kernel_ok w3" by (rule kernel_ok_same)
      have kc: "kernel_ok (snd (CloseHandle x w3))" for x
        using k3 by (rule kernel_ok_close) (rule surjective_pairing)
      from assms(2) False c pv cr Some
      have "objects w' = objects w3 \<or> (\<exists>x. objects w' = objects (snd (CloseHandle x w3)))"
        by (auto simp: sem_open_def Let_def set_errno_def dest!: free_objects
            split: if_splits option.splits)
      then show ?thesis
      proof (elim disjE exE)
        assume "objects w' = objects w3"
        with k3 show ?thesis by (rule kernel_ok_same)
      next
        fix x assume "objects w' = objects (snd (CloseHandle x w3))"
        with kc show ?thesis by (rule kernel_ok_same)
      qed
    qed
  qed
qed

lemma kernel_ok_sem_init:
  assumes "kernel_ok w" and "sem_init vmax sem pshared val w = Done r w'"
  shows "kernel_ok w'"
proof (cases "sem = NULL \<or> word_of_nat vmax < val")
  case True
  with assms(2) have "objects w' = objects w"
    by (auto simp: sem_init_def ret_def set_errno_def)
  with assms(1) show ?thesis by (rule kernel_ok_same)
next
  case False
  obtain pv w1 where c: "calloc w = (pv, w1)" by (cases "calloc w")
  then have o1: "objects w1 = objects w" by (rule calloc_objects)
  with assms(1) have k1: "kernel_ok w1" by (rule kernel_ok_same)
  let ?nm = "if pshared \<noteq> PTHREAD_PROCESS_PRIVATE then global_prefix @ fmt_ptr pv else []"
  obtain h w2 where cr: "CreateSemaphore (sint val) (int32 (int vmax)) ?nm w1 = (h, w2)"
    by (cases "CreateSemaphore (sint val) (int32 (int vmax)) ?nm w1")
  have k2: "kernel_ok w2" using k1 int32_le cr by (rule kernel_ok_create)
  from assms(2) False c cr have "objects w' = objects w1 \<or> objects w' = objects w2"
    by (auto simp: sem_init_def Let_def ret_def set_errno_def
        dest!: free_objects store_objects split: if_splits option.splits)
  then show ?thesis using k1 k2 by (auto intro: kernel_ok_same)
qed

lemma kernel_ok_initial: "kernel_ok initial_world"
  by (simp add: kernel_ok_def initial_world_def)

lemma kernel_ok_opened: "n \<le> 2147483647 \<Longrightarrow> kernel_ok (opened_world nm n)"
  by (simp add: kernel_ok_def opened_world_def)

section \<open>Unnamed semaphores\<close>

text \<open>
  \<^verbatim>\<open>sem_init\<close> leaves the address of the wrapper in the caller's \<^verbatim>\<open>sem_t\<close>
  (\<^verbatim>\<open>*sem = pv\<close>), while the other routines take \<^verbatim>\<open>(arch_sem_t *) sem\<close> for the
  wrapper, as it is for the pointer that \<^verbatim>\<open>sem_open\<close> returns. With the caller's variable
  at address 16: after \<^verbatim>\<open>sem_init\<close> it holds 4096, the wrapper, which holds the handle 1;
  \<^verbatim>\<open>sem_getvalue\<close> and \<^verbatim>\<open>sem_destroy\<close> on the same pointer hand 4096 to the native
  call as if it were the handle, and fail.
\<close>

lemma sem_init_then_getvalue:
  "\<exists>w'. sem_init 2147483647 16 0 3 (initial_world\<lparr>memory := [16 \<mapsto> 0]\<rparr>) = Done 0 w'
        \<and> load 16 w' = Some 4096 \<and> load 4096 w' = Some 1
        \<and> object_of 1 w'
            = Some (1, \<lparr>kcount = 3, kmax = 2147483647, krefs = 1, kname = []\<rparr>)
        \<and> sem_getvalue 16 w'
            = Done (- 1, None) (w'\<lparr>last_error := ERROR_INVALID_HANDLE, errno := EINVAL\<rparr>)
        \<and> sem_destroy 16 w'
            = Done (- 1) (w'\<lparr>last_error := ERROR_INVALID_HANDLE, errno := EINVAL\<rparr>)"
  by (simp add: sem_init_def sem_getvalue_def sem_destroy_def calloc_def CreateSemaphore_def
      store_def load_def WaitForSingleObject_def CloseHandle_def object_of_def ret_def
      set_errno_def SetLastError_def Let_def initial_world_def int32_def)

end
